theory Spec2Isabelle
  imports Complex_Main
begin

section \<open>Spherical Earth acoustic ray geometry\<close>

text \<open>
  A shallow embedding of the two geometric routines of
  \<^verbatim>\<open>scripts/sphere/spherical_earth_acoustic.py\<close>:
  \<^verbatim>\<open>calculate_surface_intersection\<close> and \<^verbatim>\<open>calculate_ray_depth_profile\<close>.

  Numbers: the source computes with IEEE doubles through numpy. The embedding reads every
  float as a \<^typ>\<open>real\<close> and every numpy operation as the exact mathematical function
  it approximates. Rounding is therefore outside the model: a theorem below speaks of the
  formulas of the code in exact arithmetic. The integer \<^verbatim>\<open>num_points\<close> is Python's
  unbounded \<^typ>\<open>int\<close>.

  Where a property turns on the sign of a rounding error, exact arithmetic and the doubles
  of the code part ways, and no theorem is stated here:
  \<^item> at a launch angle of 90 degrees \<open>cos (\<pi>/2) = 0\<close> fires the guard
    \<^verbatim>\<open>r_effective <= 0\<close>, where the cosine numpy computes at the nearest double is
    about \<open>6.1e-17 > 0\<close> and the code takes the valid branch;
  \<^item> the range grows strictly with the depth in exact arithmetic, where the arc cosine of
    the code returns equal doubles for close ratios;
  \<^item> no sampled depth is negative and the maximum is at least the source depth in exact
    arithmetic, where the code returns a last depth within a rounding error of \<open>0\<close>, of
    either sign, and a maximum within a rounding error of the source depth.

  The depths at the two ends of a profile are stated below as equalities of exact
  arithmetic, which is how they are claimed.
\<close>

subsection \<open>The numpy operations the code calls\<close>

datatype error = ValueError

text \<open>
  \<^verbatim>\<open>np.linspace(start, stop, num)\<close> with the default \<^verbatim>\<open>endpoint=True\<close>: a negative
  \<^verbatim>\<open>num\<close> raises \<^verbatim>\<open>ValueError\<close>; otherwise \<^verbatim>\<open>num\<close> samples
  \<^verbatim>\<open>start + i * ((stop - start) / (num - 1))\<close>, the last one overwritten by
  \<^verbatim>\<open>stop\<close> when \<^verbatim>\<open>num > 1\<close>; the single sample of \<^verbatim>\<open>num = 1\<close> is
  \<^verbatim>\<open>start\<close>.
\<close>

definition linspace :: "real \<Rightarrow> real \<Rightarrow> int \<Rightarrow> error + real list" where
  "linspace start stop num =
     (if num < 0 then Inl ValueError
      else if num = 0 then Inr []
      else if num = 1 then Inr [start]
      else Inr (map (\<lambda>i. start + real i * ((stop - start) / real_of_int (num - 1)))
                    [0 ..< nat num - 1] @ [stop]))"

text \<open>
  \<^verbatim>\<open>np.arctan2(y, x)\<close>: the angle of the point \<open>(x, y)\<close> in \<open>(-\<pi>, \<pi>]\<close>, and
  \<open>0\<close> at the origin.
\<close>

definition arctan2 :: "real \<Rightarrow> real \<Rightarrow> real" where
  "arctan2 y x =
     (if 0 < x then arctan (y / x)
      else if x < 0 \<and> 0 \<le> y then arctan (y / x) + pi
      else if x < 0 \<and> y < 0 then arctan (y / x) - pi
      else if 0 < y then pi / 2
      else if y < 0 then - (pi / 2)
      else 0)"

text \<open>
  \<^verbatim>\<open>np.argmax(a)\<close>: the index of the first occurrence of the maximum; an empty array
  raises \<^verbatim>\<open>ValueError\<close>. The scan keeps the running index, the best index and the best
  value, and replaces the best only by a strictly larger entry.
\<close>

fun argmax_scan :: "real list \<Rightarrow> nat \<Rightarrow> nat \<Rightarrow> real \<Rightarrow> nat" where
  "argmax_scan [] i best bv = best"
| "argmax_scan (x # xs) i best bv =
     (if bv < x then argmax_scan xs (Suc i) i x else argmax_scan xs (Suc i) best bv)"

definition argmax :: "real list \<Rightarrow> error + nat" where
  "argmax a = (case a of [] \<Rightarrow> Inl ValueError | x # xs \<Rightarrow> Inr (argmax_scan xs 1 0 x))"

subsection \<open>The surface-intersection solver\<close>

text \<open>
  \<^verbatim>\<open>calculate_surface_intersection(r_source, angle_rad, r_earth)\<close> returns the pair
  \<^verbatim>\<open>(range_m, central_angle)\<close>; no intersection is the pair \<^verbatim>\<open>(-1.0, 0.0)\<close>. The
  division by \<^verbatim>\<open>r_earth\<close> is reached only past the first guard, where
  \<open>0 < r_effective \<le> r_earth\<close>, so it never divides by zero.
\<close>

definition calculate_surface_intersection :: "real \<Rightarrow> real \<Rightarrow> real \<Rightarrow> real \<times> real" where
  "calculate_surface_intersection r_source angle_rad r_earth =
     (let r_effective = r_source * cos angle_rad in
      if r_effective \<le> 0 \<or> r_effective > r_earth then (-1, 0)
      else
        let cos_central = r_effective / r_earth in
        if cos_central < -1 \<or> cos_central > 1 then (-1, 0)
        else
          let central_angle = arccos cos_central;
              range_m = r_earth * central_angle
          in (range_m, central_angle))"

subsection \<open>The ray depth-profile sampler\<close>

record ray_profile =
  horizontal_ranges :: "real list"
  depths_below_surface :: "real list"
  max_depth :: real
  max_depth_range :: real

text \<open>
  \<^verbatim>\<open>calculate_ray_depth_profile(source_depth, beam_angle, r_source, range_m,
  central_angle, r_earth, num_points)\<close>. The body reads neither \<^verbatim>\<open>source_depth\<close>,
  \<^verbatim>\<open>beam_angle\<close> nor \<^verbatim>\<open>range_m\<close>, and checks none of its arguments. It raises only
  where numpy does: in \<^verbatim>\<open>linspace\<close> for a negative \<^verbatim>\<open>num_points\<close> and in
  \<^verbatim>\<open>argmax\<close> for an empty array. The two indexings by \<^verbatim>\<open>max_depth_idx\<close> are in
  range, the index being one of the array.
\<close>

definition calculate_ray_depth_profile ::
  "real \<Rightarrow> real \<Rightarrow> real \<Rightarrow> real \<Rightarrow> real \<Rightarrow> real \<Rightarrow> int \<Rightarrow> error + ray_profile" where
  "calculate_ray_depth_profile source_depth beam_angle r_source range_m central_angle
       r_earth num_points =
     (let source_angle = 0;
          source_x = r_source * cos source_angle;
          source_y = r_source * sin source_angle;
          intersect_angle = central_angle;
          intersect_x = r_earth * cos intersect_angle;
          intersect_y = r_earth * sin intersect_angle
      in case linspace 0 1 num_points of
           Inl e \<Rightarrow> Inl e
         | Inr t \<Rightarrow>
             let ray_x = map (\<lambda>ti. source_x + ti * (intersect_x - source_x)) t;
                 ray_y = map (\<lambda>ti. source_y + ti * (intersect_y - source_y)) t;
                 ray_r = map (\<lambda>(x, y). sqrt (x\<^sup>2 + y\<^sup>2)) (zip ray_x ray_y);
                 depths = map (\<lambda>r. r_earth - r) ray_r;
                 ray_angles = map (\<lambda>(x, y). arctan2 y x) (zip ray_x ray_y);
                 ranges = map (\<lambda>a. r_earth * a) ray_angles
             in (case argmax depths of
                   Inl e \<Rightarrow> Inl e
                 | Inr max_depth_idx \<Rightarrow>
                     Inr \<lparr>horizontal_ranges = ranges,
                          depths_below_surface = depths,
                          max_depth = depths ! max_depth_idx,
                          max_depth_range = ranges ! max_depth_idx\<rparr>))"

subsection \<open>The chord in coordinates\<close>

text \<open>
  Notation for the proofs, read off the body of the sampler: the depth and the horizontal
  range of the chord point at parameter \<open>t\<close>, with the source at \<open>(r_source, 0)\<close>
  (\<open>cos 0 = 1\<close>, \<open>sin 0 = 0\<close>), and the \<open>i\<close>-th of the \<open>n\<close> parameters of
  \<^verbatim>\<open>np.linspace(0, 1, n)\<close>.
\<close>

definition ray_depth :: "real \<Rightarrow> real \<Rightarrow> real \<Rightarrow> real \<Rightarrow> real" where
  "ray_depth r_source central_angle r_earth t =
     r_earth - sqrt ((r_source + t * (r_earth * cos central_angle - r_source))\<^sup>2
                     + (t * (r_earth * sin central_angle))\<^sup>2)"

definition ray_range :: "real \<Rightarrow> real \<Rightarrow> real \<Rightarrow> real \<Rightarrow> real" where
  "ray_range r_source central_angle r_earth t =
     r_earth * arctan2 (t * (r_earth * sin central_angle))
                       (r_source + t * (r_earth * cos central_angle - r_source))"

definition sample_t :: "nat \<Rightarrow> nat \<Rightarrow> real" where
  "sample_t n i = real i / real (n - 1)"

section \<open>The numpy operations and the shape of a profile\<close>

lemma linspace_unit:
  assumes "1 \<le> n"
  shows "linspace 0 1 (int n) = Inr (map (sample_t n) [0 ..< n])"
proof (cases "n = 1")
  case True
  then show ?thesis by (simp add: linspace_def sample_t_def)
next
  case False
  with assms obtain m where m: "n = Suc m" "1 \<le> m" by (cases n) auto
  have a: "real_of_int (int n - 1) = real m" using m by simp
  have b: "nat (int n) - 1 = m" using m by simp
  have c: "\<not> int n < 0" "int n \<noteq> 0" "int n \<noteq> 1" using m by simp_all
  have d: "sample_t n = (\<lambda>i. real i / real m)" using m by (simp add: sample_t_def fun_eq_iff)
  show ?thesis
    unfolding linspace_def using m(2) by (simp only: a b c d if_False) (simp add: m(1))
qed

lemma argmax_scan_max:
  assumes "best < length ys" "ys ! best = bv" "\<forall>y \<in> set ys. y \<le> bv" "i = length ys"
  shows "argmax_scan xs i best bv < length (ys @ xs) \<and>
         (\<forall>y \<in> set (ys @ xs). y \<le> (ys @ xs) ! argmax_scan xs i best bv)"
  using assms
proof (induction xs arbitrary: ys i best bv)
  case Nil
  then show ?case by simp
next
  case (Cons x xs)
  show ?case
  proof (cases "bv < x")
    case True
    have "argmax_scan xs (Suc i) i x < length ((ys @ [x]) @ xs) \<and>
         (\<forall>y \<in> set ((ys @ [x]) @ xs). y \<le> ((ys @ [x]) @ xs) ! argmax_scan xs (Suc i) i x)"
      using Cons.prems True by (intro Cons.IH) (auto simp: nth_append intro: less_imp_le order_trans)
    then show ?thesis using True by simp
  next
    case False
    have "argmax_scan xs (Suc i) best bv < length ((ys @ [x]) @ xs) \<and>
         (\<forall>y \<in> set ((ys @ [x]) @ xs). y \<le> ((ys @ [x]) @ xs) ! argmax_scan xs (Suc i) best bv)"
      using Cons.prems False by (intro Cons.IH) (auto simp: nth_append)
    then show ?thesis using False by simp
  qed
qed

lemma argmax_spec:
  assumes "a \<noteq> []"
  shows "\<exists>k. argmax a = Inr k \<and> k < length a \<and> (\<forall>y \<in> set a. y \<le> a ! k)"
proof -
  from assms obtain x xs where a: "a = x # xs" by (cases a) auto
  have "argmax_scan xs 1 0 x < length ([x] @ xs) \<and>
         (\<forall>y \<in> set ([x] @ xs). y \<le> ([x] @ xs) ! argmax_scan xs 1 0 x)"
    by (rule argmax_scan_max) simp_all
  then show ?thesis by (simp add: a argmax_def)
qed

lemma zip_map_same:
  "map (\<lambda>(x, y). f x y) (zip (map g ts) (map h ts)) = map (\<lambda>t. f (g t) (h t)) ts"
  by (induction ts) simp_all

lemma profile_depths:
  "map (\<lambda>r. r_earth - r)
     (map (\<lambda>(x, y). sqrt (x\<^sup>2 + y\<^sup>2))
        (zip (map (\<lambda>ti. r_source * cos 0 + ti * (r_earth * cos ca - r_source * cos 0)) ts)
             (map (\<lambda>ti. r_source * sin 0 + ti * (r_earth * sin ca - r_source * sin 0)) ts)))
   = map (ray_depth r_source ca r_earth) ts"
  by (simp add: zip_map_same ray_depth_def)

lemma profile_ranges:
  "map (\<lambda>a. r_earth * a)
     (map (\<lambda>(x, y). arctan2 y x)
        (zip (map (\<lambda>ti. r_source * cos 0 + ti * (r_earth * cos ca - r_source * cos 0)) ts)
             (map (\<lambda>ti. r_source * sin 0 + ti * (r_earth * sin ca - r_source * sin 0)) ts)))
   = map (ray_range r_source ca r_earth) ts"
  by (simp add: zip_map_same ray_range_def)

lemma profile_Inr:
  assumes "1 \<le> n"
  shows "\<exists>k < n.
           (\<forall>j < n. ray_depth r_source ca r_earth (sample_t n j)
                     \<le> ray_depth r_source ca r_earth (sample_t n k)) \<and>
           calculate_ray_depth_profile source_depth beam_angle r_source range_m ca r_earth (int n)
           = Inr \<lparr>horizontal_ranges = map (\<lambda>i. ray_range r_source ca r_earth (sample_t n i)) [0 ..< n],
                  depths_below_surface = map (\<lambda>i. ray_depth r_source ca r_earth (sample_t n i)) [0 ..< n],
                  max_depth = ray_depth r_source ca r_earth (sample_t n k),
                  max_depth_range = ray_range r_source ca r_earth (sample_t n k)\<rparr>"
proof -
  let ?ts = "map (sample_t n) [0 ..< n]"
  let ?ds = "map (ray_depth r_source ca r_earth) ?ts"
  let ?rs = "map (ray_range r_source ca r_earth) ?ts"
  have ne: "?ds \<noteq> []" using assms by simp
  from argmax_spec [OF ne] obtain k where
    k: "argmax ?ds = Inr k" "k < length ?ds" "\<forall>y \<in> set ?ds. y \<le> ?ds ! k" by blast
  have kn: "k < n" using k(2) by simp
  have dk: "?ds ! k = ray_depth r_source ca r_earth (sample_t n k)"
    using kn by simp
  have rk: "?rs ! k = ray_range r_source ca r_earth (sample_t n k)"
    using kn by simp
  have le: "ray_depth r_source ca r_earth (sample_t n j) \<le> ray_depth r_source ca r_earth (sample_t n k)"
    if "j < n" for j
  proof -
    have "?ds ! j \<in> set ?ds" using that by (intro nth_mem) simp
    then have "?ds ! j \<le> ?ds ! k" using k(3) by blast
    then show ?thesis using that dk by simp
  qed
  have "calculate_ray_depth_profile source_depth beam_angle r_source range_m ca r_earth (int n)
      = Inr \<lparr>horizontal_ranges = ?rs, depths_below_surface = ?ds,
             max_depth = ?ds ! k, max_depth_range = ?rs ! k\<rparr>"
    unfolding calculate_ray_depth_profile_def Let_def linspace_unit [OF assms]
    by (simp only: sum.case profile_depths profile_ranges k(1))
  then show ?thesis using kn le dk rk by (auto simp: comp_def)
qed

section \<open>The surface-intersection solver\<close>

text \<open>
  The two outcomes of the solver. Past the first guard the ratio \<open>r_effective / r_earth\<close>
  lies in \<open>(0, 1]\<close>, so the second guard never fires and the result is the arc cosine;
  before it the result is the pair \<open>(-1, 0)\<close>.
\<close>

lemma csi_valid:
  assumes "0 < r_source * cos a" "r_source * cos a \<le> r_earth"
  shows "calculate_surface_intersection r_source a r_earth
         = (r_earth * arccos (r_source * cos a / r_earth), arccos (r_source * cos a / r_earth))"
    and "0 < r_source * cos a / r_earth" and "r_source * cos a / r_earth \<le> 1"
proof -
  have R: "0 < r_earth" using assms by linarith
  show c0: "0 < r_source * cos a / r_earth" using assms R by simp
  show c1: "r_source * cos a / r_earth \<le> 1" using assms R by simp
  show "calculate_surface_intersection r_source a r_earth
         = (r_earth * arccos (r_source * cos a / r_earth), arccos (r_source * cos a / r_earth))"
  proof -
    have n: "\<not> r_source * cos a / r_earth < - 1" using c0 by linarith
    show ?thesis
      using assms c1 n unfolding calculate_surface_intersection_def Let_def
      by (simp add: not_le not_less)
  qed
qed

lemma csi_invalid:
  assumes "r_source * cos a \<le> 0 \<or> r_earth < r_source * cos a"
  shows "calculate_surface_intersection r_source a r_earth = (-1, 0)"
  using assms unfolding calculate_surface_intersection_def Let_def by auto

text \<open>
  Claim C2. For \<open>r_source > 0\<close>, \<open>r_earth > 0\<close> and a launch angle in
  \<open>[-\<pi>/2, \<pi>/2]\<close>, the solver returns the invalid result, the value \<open>range_m = -1\<close> (the
  pair \<open>(-1, 0)\<close>) and no exception, if and only if the effective radius
  \<open>r_source * cos launch_angle_rad\<close> is \<open>\<le> 0\<close> or \<open>> r_earth\<close>. The solver is a total
  function of the model: none of its operations can raise on these inputs.
\<close>

theorem intersection_invalid_iff:
  assumes "0 < r_source" "0 < r_earth" "- (pi / 2) \<le> launch_angle_rad" "launch_angle_rad \<le> pi / 2"
  shows "(fst (calculate_surface_intersection r_source launch_angle_rad r_earth) = -1
            \<longleftrightarrow> (r_source * cos launch_angle_rad \<le> 0 \<or> r_source * cos launch_angle_rad > r_earth))
       \<and> (calculate_surface_intersection r_source launch_angle_rad r_earth = (-1, 0)
            \<longleftrightarrow> (r_source * cos launch_angle_rad \<le> 0 \<or> r_source * cos launch_angle_rad > r_earth))"
proof (cases "r_source * cos launch_angle_rad \<le> 0 \<or> r_source * cos launch_angle_rad > r_earth")
  case True
  then show ?thesis using csi_invalid [of r_source launch_angle_rad r_earth] by simp
next
  case False
  then have v: "0 < r_source * cos launch_angle_rad" "r_source * cos launch_angle_rad \<le> r_earth"
    by simp_all
  let ?c = "r_source * cos launch_angle_rad / r_earth"
  have "0 \<le> arccos ?c" using csi_valid(2,3) [OF v] by (intro arccos_lbound) simp_all
  then have "0 \<le> r_earth * arccos ?c" using assms(2) by simp
  then show ?thesis using False csi_valid(1) [OF v] by simp
qed

theorem intersection_invalid_iff_witness:
  "(0::real) < 1 \<and> (0::real) < 2 \<and> - (pi / 2) \<le> 0 \<and> 0 \<le> pi / 2
   \<and> fst (calculate_surface_intersection 1 0 2) \<noteq> -1
   \<and> calculate_surface_intersection 1 0 2 \<noteq> (-1, 0)"
  using intersection_invalid_iff [of 1 2 0] by simp

text \<open>
  Claim C3. On the same inputs, a valid result has \<open>range_m \<ge> 0\<close> and a central angle in
  \<open>[0, \<pi>/2]\<close>, and \<open>range_m = 0\<close> exactly when the effective radius equals \<open>r_earth\<close>.
\<close>

theorem intersection_valid_bounds:
  assumes "0 < r_source" "0 < r_earth" "- (pi / 2) \<le> launch_angle_rad" "launch_angle_rad \<le> pi / 2"
    and "calculate_surface_intersection r_source launch_angle_rad r_earth = (range_m, central_angle_rad)"
    and "range_m \<noteq> -1"
  shows "0 \<le> range_m \<and> 0 \<le> central_angle_rad \<and> central_angle_rad \<le> pi / 2
       \<and> (range_m = 0 \<longleftrightarrow> r_source * cos launch_angle_rad = r_earth)"
proof -
  have nv: "\<not> (r_source * cos launch_angle_rad \<le> 0 \<or> r_earth < r_source * cos launch_angle_rad)"
    using csi_invalid [of r_source launch_angle_rad r_earth] assms(5,6) by auto
  then have v: "0 < r_source * cos launch_angle_rad" "r_source * cos launch_angle_rad \<le> r_earth"
    by simp_all
  let ?c = "r_source * cos launch_angle_rad / r_earth"
  note c = csi_valid(2,3) [OF v]
  have eq: "range_m = r_earth * arccos ?c" "central_angle_rad = arccos ?c"
    using csi_valid(1) [OF v] assms(5) by simp_all
  have lo: "0 \<le> arccos ?c" using c by (intro arccos_lbound) simp_all
  have hi: "arccos ?c \<le> pi / 2" using c by (intro arccos_le_pi2) simp_all
  have "arccos ?c = 0 \<longleftrightarrow> ?c = 1" using c by (intro arccos_eq_0_iff) simp
  also have "\<dots> \<longleftrightarrow> r_source * cos launch_angle_rad = r_earth" using assms(2) by auto
  finally have z: "range_m = 0 \<longleftrightarrow> r_source * cos launch_angle_rad = r_earth"
    using assms(2) eq by simp
  show ?thesis using lo hi z eq assms(2) by simp
qed

theorem intersection_valid_bounds_witness:
  "(0::real) < 1 \<and> (0::real) < 2 \<and> - (pi / 2) \<le> 0 \<and> 0 \<le> pi / 2
   \<and> calculate_surface_intersection 1 0 2 = (2 * pi / 3, pi / 3) \<and> 2 * pi / 3 \<noteq> - 1
   \<and> 0 \<le> 2 * pi / 3 \<and> 0 \<le> pi / 3 \<and> pi / 3 \<le> pi / 2
   \<and> (2 * pi / 3 = 0 \<longleftrightarrow> 1 * cos 0 = (2::real))"
proof -
  have v: "calculate_surface_intersection 1 0 2 = (2 * pi / 3, pi / 3)"
    using arccos_cos [of "pi / 3"] by (simp add: calculate_surface_intersection_def cos_60)
  have "0 < 2 * pi / 3" by simp
  then have n: "2 * pi / 3 \<noteq> - 1" by linarith
  show ?thesis
    using intersection_valid_bounds [of 1 2 0 "2 * pi / 3" "pi / 3", OF _ _ _ _ v n] v n
    by simp
qed

text \<open>
  Claim C8. A horizontal ray (launch angle \<open>0\<close>) from \<open>0 < r_source \<le> r_earth\<close> has the
  central angle \<open>arccos (r_source / r_earth)\<close>; from the surface itself (depth \<open>0\<close>) the
  range and the central angle are both \<open>0\<close>.
\<close>

theorem horizontal_ray_central_angle:
  assumes "0 < r_source" "r_source \<le> r_earth"
  shows "calculate_surface_intersection r_source 0 r_earth
           = (r_earth * arccos (r_source / r_earth), arccos (r_source / r_earth))
       \<and> calculate_surface_intersection (r_earth - 0) 0 r_earth = (0, 0)"
proof -
  have R: "0 < r_earth" using assms by linarith
  have a: "calculate_surface_intersection r_source 0 r_earth
           = (r_earth * arccos (r_source / r_earth), arccos (r_source / r_earth))"
    using csi_valid(1) [of r_source 0 r_earth] assms by simp
  have b: "calculate_surface_intersection (r_earth - 0) 0 r_earth = (0, 0)"
    using csi_valid(1) [of r_earth 0 r_earth] R by simp
  show ?thesis using a b by simp
qed

theorem horizontal_ray_central_angle_witness:
  "(0::real) < 1 \<and> (1::real) \<le> 2
   \<and> calculate_surface_intersection 1 0 2 = (2 * arccos (1 / 2), arccos (1 / 2))
   \<and> calculate_surface_intersection (2 - 0) 0 2 = (0, 0)"
  using horizontal_ray_central_angle [of 1 2] by simp

section \<open>The ray depth-profile sampler\<close>

text \<open>
  Claim C10. The sampler's result is the same for any two calls that agree on
  \<open>r_source\<close>, \<open>central_angle\<close>, \<open>r_earth\<close> and \<open>num_points\<close>: the arguments
  \<open>source_depth\<close>, \<open>beam_angle\<close> and \<open>range_m\<close> have no influence on it.
\<close>

theorem profile_ignores_depth_angle_range:
  "calculate_ray_depth_profile source_depth beam_angle r_source range_m central_angle r_earth num_points
   = calculate_ray_depth_profile source_depth' beam_angle' r_source range_m' central_angle r_earth num_points"
  by (simp add: calculate_ray_depth_profile_def)

lemma profile_raises:
  assumes "num_points \<le> 0"
  shows "calculate_ray_depth_profile source_depth beam_angle r_source range_m ca r_earth num_points
         = Inl ValueError"
proof (cases "num_points < 0")
  case True
  then show ?thesis by (simp add: calculate_ray_depth_profile_def linspace_def)
next
  case False
  with assms have "num_points = 0" by simp
  then show ?thesis by (simp add: calculate_ray_depth_profile_def linspace_def argmax_def)
qed

text \<open>
  Claim C1, as amended. The sampler checks no precondition. Whatever the other arguments,
  and so for the invalid result \<open>range_m = -1\<close> too, it returns a profile of
  \<open>num_points\<close> samples when \<open>num_points \<ge> 1\<close>, and it fails, with numpy's
  \<^verbatim>\<open>ValueError\<close>, when \<open>num_points \<le> 0\<close>.
\<close>

theorem profile_checks_no_precondition:
  "(num_points \<le> 0 \<longrightarrow>
      calculate_ray_depth_profile source_depth beam_angle r_source range_m central_angle
        r_earth num_points = Inl ValueError)
   \<and> (1 \<le> num_points \<longrightarrow>
      (\<exists>p. calculate_ray_depth_profile source_depth beam_angle r_source range_m central_angle
             r_earth num_points = Inr p
           \<and> length (horizontal_ranges p) = nat num_points
           \<and> length (depths_below_surface p) = nat num_points))"
proof (intro conjI impI)
  assume "num_points \<le> 0"
  then show "calculate_ray_depth_profile source_depth beam_angle r_source range_m central_angle
        r_earth num_points = Inl ValueError"
    by (rule profile_raises)
next
  assume n: "1 \<le> num_points"
  then have i: "num_points = int (nat num_points)" and n1: "1 \<le> nat num_points" by simp_all
  from profile_Inr [OF n1, of r_source central_angle r_earth source_depth beam_angle range_m]
  show "\<exists>p. calculate_ray_depth_profile source_depth beam_angle r_source range_m central_angle
             r_earth num_points = Inr p
           \<and> length (horizontal_ranges p) = nat num_points
           \<and> length (depths_below_surface p) = nat num_points"
    using i by auto
qed

theorem profile_checks_no_precondition_witness:
  "(0::int) \<le> 0 \<and> (1::int) \<le> 2
   \<and> calculate_ray_depth_profile 1 90 1 (-1) 0 2 0 = Inl ValueError
   \<and> (\<exists>p. calculate_ray_depth_profile 1 90 1 (-1) 0 2 2 = Inr p
          \<and> length (horizontal_ranges p) = nat 2
          \<and> length (depths_below_surface p) = nat 2)"
  using profile_checks_no_precondition [of 0 1 90 1 "-1" 0 2]
    profile_checks_no_precondition [of 2 1 90 1 "-1" 0 2]
  by simp

text \<open>
  The claim as written fails: the sampler called with the invalid result \<open>(-1, 0)\<close>, a
  source at radius \<open>1\<close> under an Earth of radius \<open>2\<close> and two points returns a profile
  instead of failing. That the solver returns \<open>(-1, 0)\<close> for this source launched straight
  down, the first conjunct, is a fact of exact arithmetic only (\<open>cos (\<pi>/2) = 0\<close>); the
  refutation is the second conjunct, which rounding does not touch.
\<close>

theorem profile_accepts_invalid_intersection:
  "calculate_surface_intersection 1 (pi / 2) 2 = (-1, 0)
   \<and> calculate_ray_depth_profile 1 90 1 (-1) 0 2 2
     = Inr \<lparr>horizontal_ranges = [0, 0], depths_below_surface = [1, 0],
            max_depth = 1, max_depth_range = 0\<rparr>"
  by (simp add: calculate_surface_intersection_def calculate_ray_depth_profile_def
      linspace_def argmax_def arctan2_def)

subsection \<open>The sample parameters and the chord\<close>

lemma sample_t_bounds:
  assumes "i < n"
  shows "0 \<le> sample_t n i" and "sample_t n i \<le> 1"
proof -
  show "0 \<le> sample_t n i" by (simp add: sample_t_def)
  have "real i \<le> real (n - 1)" using assms by simp
  then show "sample_t n i \<le> 1" unfolding sample_t_def
    by (cases "n - 1 = 0") (simp_all add: divide_le_eq)
qed

lemma sample_t_mono: "i \<le> j \<Longrightarrow> sample_t n i \<le> sample_t n j"
  unfolding sample_t_def by (intro divide_right_mono) simp_all

lemma sample_t_first: "sample_t n 0 = 0"
  by (simp add: sample_t_def)

lemma sample_t_last: "2 \<le> n \<Longrightarrow> sample_t n (n - 1) = 1"
  by (simp add: sample_t_def)

lemma ray_depth_source: "0 \<le> r_source \<Longrightarrow> ray_depth r_source ca r_earth 0 = r_earth - r_source"
  by (simp add: ray_depth_def)

lemma ray_depth_surface:
  assumes "0 \<le> r_earth"
  shows "ray_depth r_source ca r_earth 1 = 0"
proof -
  have "(r_earth * cos ca)\<^sup>2 + (r_earth * sin ca)\<^sup>2 = r_earth\<^sup>2 * ((sin ca)\<^sup>2 + (cos ca)\<^sup>2)"
    by (simp only: power_mult_distrib distrib_left add.commute)
  also have "\<dots> = r_earth\<^sup>2" by simp
  finally have "sqrt ((r_earth * cos ca)\<^sup>2 + (r_earth * sin ca)\<^sup>2) = r_earth"
    using assms by simp
  then show ?thesis by (simp add: ray_depth_def)
qed

text \<open>
  The polar angle grows along the chord: while the abscissa is positive the slope
  \<open>Y / X\<close> grows with \<open>t\<close>, the cross product \<open>Y t * X s - Y s * X t\<close> being
  \<open>d * r_source * (t - s)\<close>; the abscissa vanishes only at \<open>t = 1\<close> for the central angle
  \<open>\<pi>/2\<close>, where the angle is \<open>\<pi>/2\<close>, above every arc tangent.
\<close>

lemma ray_range_mono:
  assumes rs: "0 < r_source" and R: "0 < r_earth"
    and ca: "0 \<le> ca" "ca \<le> pi / 2"
    and st: "0 \<le> s" "s \<le> t" "t \<le> 1"
  shows "ray_range r_source ca r_earth s \<le> ray_range r_source ca r_earth t"
proof -
  define c where "c = r_earth * cos ca"
  define d where "d = r_earth * sin ca"
  define X where "X = (\<lambda>u. r_source + u * (c - r_source))"
  define Y where "Y = (\<lambda>u. u * d)"
  have cos0: "0 \<le> cos ca" using ca by (intro cos_ge_zero) simp_all
  have sin0: "0 \<le> sin ca" using ca by (intro sin_ge_zero) (simp_all add: pi_ge_zero)
  have c0: "0 \<le> c" using R cos0 by (simp add: c_def)
  have d0: "0 \<le> d" using R sin0 by (simp add: d_def)
  have Xalt: "X u = (1 - u) * r_source + u * c" for u
    by (simp add: X_def algebra_simps)
  have Xpos: "0 < X u" if "0 \<le> u" "u < 1" for u
  proof -
    have "0 < (1 - u) * r_source" using that rs by simp
    moreover have "0 \<le> u * c" using that c0 by simp
    ultimately show ?thesis unfolding Xalt by linarith
  qed
  have key: "arctan2 (Y s) (X s) \<le> arctan2 (Y t) (X t)"
  proof (cases "0 < X t")
    case True
    have Xs: "0 < X s"
    proof (cases "s < 1")
      case True
      then show ?thesis using st Xpos by simp
    next
      case False
      then have "s = t" using st by linarith
      then show ?thesis using \<open>0 < X t\<close> by simp
    qed
    have "Y t * X s - Y s * X t = d * r_source * (t - s)"
      by (simp add: X_def Y_def algebra_simps)
    moreover have "0 \<le> d * r_source * (t - s)" using d0 rs st by simp
    ultimately have cross: "Y s * X t \<le> Y t * X s" by linarith
    have "Y s / X s = (Y s * X t) / (X s * X t)" using True by simp
    also have "\<dots> \<le> (Y t * X s) / (X s * X t)"
      using cross Xs True by (intro divide_right_mono) simp_all
    also have "\<dots> = Y t / X t" using Xs by simp
    finally have "arctan (Y s / X s) \<le> arctan (Y t / X t)" by (simp add: arctan_le_iff)
    then show ?thesis using True Xs by (simp add: arctan2_def)
  next
    case False
    have t1: "t = 1"
    proof (rule ccontr)
      assume "t \<noteq> 1"
      then have "0 < X t" using st by (intro Xpos) simp_all
      then show False using False by simp
    qed
    then have "X t = c" by (simp add: X_def)
    then have cz: "c = 0" using False c0 by simp
    then have "cos ca = 0" using R by (simp add: c_def)
    then have "(sin ca)\<^sup>2 = 1" using sin_cos_squared_add [of ca] by simp
    then have "sin ca \<noteq> 0" by auto
    then have dpos: "0 < d" using sin0 R by (simp add: d_def)
    have top: "arctan2 (Y t) (X t) = pi / 2"
      using t1 cz dpos by (simp add: arctan2_def X_def Y_def)
    show ?thesis
    proof (cases "s < 1")
      case True
      then have "0 < X s" using st Xpos by simp
      then have "arctan2 (Y s) (X s) = arctan (Y s / X s)" by (simp add: arctan2_def)
      also have "\<dots> < pi / 2" by (rule arctan_ubound)
      finally show ?thesis using top by simp
    next
      case False
      then have "s = t" using st by linarith
      then show ?thesis by simp
    qed
  qed
  have "ray_range r_source ca r_earth u = r_earth * arctan2 (Y u) (X u)" for u
    by (simp add: ray_range_def X_def Y_def c_def d_def)
  then show ?thesis using key R by simp
qed

lemma sorted_map_upt:
  assumes "\<And>i j. i \<le> j \<Longrightarrow> j < n \<Longrightarrow> f i \<le> (f j :: real)"
  shows "sorted (map f [0 ..< n])"
  unfolding sorted_map sorted_wrt_iff_nth_less using assms by simp

subsection \<open>The profile of a valid query\<close>

text \<open>
  Claim C4. For a source depth \<open>0 \<le> source_depth < r_earth\<close>, the source radius
  \<open>r_source = r_earth - source_depth\<close> and \<open>num_points \<ge> 2\<close>, the sampler returns exactly
  \<open>num_points\<close> samples; the depth of the first is \<open>source_depth\<close> and the depth of the
  last is \<open>0\<close>, exactly in real arithmetic.
\<close>

theorem profile_endpoints:
  assumes "0 \<le> source_depth" "source_depth < r_earth" "r_source = r_earth - source_depth"
    and "2 \<le> num_points"
  shows "\<exists>p. calculate_ray_depth_profile source_depth beam_angle r_source range_m central_angle
              r_earth num_points = Inr p
           \<and> length (horizontal_ranges p) = nat num_points
           \<and> length (depths_below_surface p) = nat num_points
           \<and> hd (depths_below_surface p) = source_depth
           \<and> last (depths_below_surface p) = 0"
proof -
  define n where "n = nat num_points"
  have n: "num_points = int n" "2 \<le> n" "1 \<le> n" using assms(4) by (simp_all add: n_def)
  have rs: "0 \<le> r_source" and R: "0 \<le> r_earth" using assms by simp_all
  let ?D = "\<lambda>i. ray_depth r_source central_angle r_earth (sample_t n i)"
  from profile_Inr [OF n(3), of r_source central_angle r_earth source_depth beam_angle range_m]
  obtain p where p: "calculate_ray_depth_profile source_depth beam_angle r_source range_m
        central_angle r_earth (int n) = Inr p"
    and hr: "horizontal_ranges p = map (\<lambda>i. ray_range r_source central_angle r_earth (sample_t n i)) [0 ..< n]"
    and ds: "depths_below_surface p = map ?D [0 ..< n]"
    by auto
  have ne: "[0 ..< n] \<noteq> []" using n by simp
  have "hd (map ?D [0 ..< n]) = ?D 0" using ne n by (simp add: hd_map)
  also have "\<dots> = source_depth"
    using ray_depth_source [OF rs] assms(3) by (simp add: sample_t_first)
  finally have first: "hd (depths_below_surface p) = source_depth" using ds by simp
  have "last (map ?D [0 ..< n]) = ?D (n - 1)" using ne n by (simp add: last_map)
  also have "\<dots> = 0"
    using ray_depth_surface [OF R] sample_t_last [OF n(2)] by simp
  finally have final: "last (depths_below_surface p) = 0" using ds by simp
  have p': "calculate_ray_depth_profile source_depth beam_angle r_source range_m
        central_angle r_earth num_points = Inr p"
    using p n(1) by simp
  have "length (horizontal_ranges p) = nat num_points"
    and "length (depths_below_surface p) = nat num_points"
    by (simp_all add: hr ds n_def)
  then show ?thesis using p' first final by blast
qed

theorem profile_endpoints_witness:
  "(0::real) \<le> 1 \<and> (1::real) < 2 \<and> (1::real) = 2 - 1 \<and> (2::int) \<le> 2
   \<and> (\<exists>p. calculate_ray_depth_profile 1 0 1 (2 * pi / 3) (pi / 3) 2 2 = Inr p
           \<and> length (horizontal_ranges p) = nat 2
           \<and> length (depths_below_surface p) = nat 2
           \<and> hd (depths_below_surface p) = 1
           \<and> last (depths_below_surface p) = 0)"
  using profile_endpoints [of 1 2 1 2 0 "2 * pi / 3" "pi / 3"] by simp

text \<open>
  Claim C6. For \<open>0 < r_source \<le> r_earth\<close>, a central angle in \<open>[0, \<pi>/2]\<close> and
  \<open>num_points \<ge> 2\<close>, the horizontal ranges of the returned profile are non-decreasing in
  the order of the samples.
\<close>

theorem profile_ranges_sorted:
  assumes "0 < r_source" "r_source \<le> r_earth"
    and "0 \<le> central_angle" "central_angle \<le> pi / 2"
    and "2 \<le> num_points"
  shows "\<exists>p. calculate_ray_depth_profile source_depth beam_angle r_source range_m central_angle
              r_earth num_points = Inr p
           \<and> length (horizontal_ranges p) = nat num_points
           \<and> sorted (horizontal_ranges p)"
proof -
  define n where "n = nat num_points"
  have n: "num_points = int n" "1 \<le> n" using assms(5) by (simp_all add: n_def)
  have R: "0 < r_earth" using assms by linarith
  let ?H = "\<lambda>i. ray_range r_source central_angle r_earth (sample_t n i)"
  from profile_Inr [OF n(2), of r_source central_angle r_earth source_depth beam_angle range_m]
  obtain p where
    p: "calculate_ray_depth_profile source_depth beam_angle r_source range_m
        central_angle r_earth (int n) = Inr p"
    and hr: "horizontal_ranges p = map ?H [0 ..< n]"
    by auto
  have "?H i \<le> ?H j" if "i \<le> j" "j < n" for i j
  proof (rule ray_range_mono [OF assms(1) R assms(3,4)])
    show "0 \<le> sample_t n i" by (simp add: sample_t_def)
    show "sample_t n i \<le> sample_t n j" using that(1) by (rule sample_t_mono)
    show "sample_t n j \<le> 1" using that(2) by (rule sample_t_bounds)
  qed
  then have "sorted (map ?H [0 ..< n])" by (rule sorted_map_upt)
  then have srt: "sorted (horizontal_ranges p)" by (simp add: hr)
  have p': "calculate_ray_depth_profile source_depth beam_angle r_source range_m
        central_angle r_earth num_points = Inr p"
    using p n(1) by simp
  have "length (horizontal_ranges p) = nat num_points" by (simp add: hr n_def)
  then show ?thesis using p' srt by blast
qed

theorem profile_ranges_sorted_witness:
  "(0::real) < 1 \<and> (1::real) \<le> 2 \<and> 0 \<le> pi / 3 \<and> pi / 3 \<le> pi / 2 \<and> (2::int) \<le> 2
   \<and> (\<exists>p. calculate_ray_depth_profile 1 0 1 (2 * pi / 3) (pi / 3) 2 2 = Inr p
           \<and> length (horizontal_ranges p) = nat 2
           \<and> sorted (horizontal_ranges p))"
  using profile_ranges_sorted [of 1 2 "pi / 3" 2 1 0 "2 * pi / 3"] by simp

end
